theory Spec2Isabelle
  imports Complex_Main "HOL-Library.Word" "HOL-Library.Sublist"
begin

section \<open>Values, faults and outcomes\<close>

text \<open>
  The program is the single file \<^verbatim>\<open>enable_memberfunc_traits.cpp\<close>: a result wrapper
  \<^verbatim>\<open>optional_type\<close>, three decorators, the adapter \<^verbatim>\<open>classmethod\<close>, the member
  functor \<^verbatim>\<open>class_memberfunc\<close> and the example class \<^verbatim>\<open>apples\<close>.

  A C++ \<^verbatim>\<open>int\<close> is a 32-bit word, read as a signed number through \<open>sint\<close>.
  An address (the value of a \<^verbatim>\<open>ClassType*\<close> or the target of a \<^verbatim>\<open>ClassType&\<close>) is a
  natural number.
\<close>

type_synonym addr = nat

text \<open>
  What a \<^verbatim>\<open>throw\<close> carries. An object of a class derived from \<^verbatim>\<open>std::exception\<close> is
  given by its class and by the text its \<^verbatim>\<open>what()\<close> returns; \<open>Ios_base_failure\<close> is
  \<^verbatim>\<open>std::iostream::failure\<close>, \<open>Std_exception\<close> any other class derived from
  \<^verbatim>\<open>std::exception\<close>. \<open>Non_exception\<close> is a thrown object of any other type.
\<close>

datatype exception_class = Ios_base_failure | Runtime_error | Bad_function_call | Std_exception

datatype thrown = Exception exception_class string | Non_exception

text \<open>
  How a call ends: it returns a value, it leaves by a thrown object, or its behaviour is
  undefined (a member read through an address that holds no object).
\<close>

datatype 'a outcome = Returns 'a | Throws thrown | Undefined

section \<open>The type \<^verbatim>\<open>double\<close>\<close>

text \<open>
  A C++ \<^verbatim>\<open>double\<close> is an IEEE 754 binary64 number, given by its 64 bits: the sign (bit
  63), the biased exponent (bits 62 to 52) and the fraction (bits 51 to 0). The program
  converts an \<^verbatim>\<open>int\<close> to \<^verbatim>\<open>double\<close>, compares a \<^verbatim>\<open>double\<close> with zero and multiplies
  doubles, in the default rounding mode (to nearest, ties to even).
\<close>

datatype double = Double (bits: "64 word")

definition sign :: "double \<Rightarrow> bool" where
  "sign x = (2 ^ 63 \<le> unat (bits x))"

definition magnitude :: "double \<Rightarrow> nat" where
  "magnitude x = unat (bits x) mod 2 ^ 63"

definition infinity_bits :: nat where
  "infinity_bits = 2047 * 2 ^ 52"

definition is_nan :: "double \<Rightarrow> bool" where
  "is_nan x = (infinity_bits < magnitude x)"

definition is_infinite :: "double \<Rightarrow> bool" where
  "is_infinite x = (magnitude x = infinity_bits)"

text \<open>
  A finite double is \<open>\<plusminus> significand * 2 ^ exponent\<close>, with the hidden bit of a normal
  number in the significand; a subnormal number has the exponent of the least normal one.
\<close>

definition significand :: "double \<Rightarrow> nat" where
  "significand x =
     (if magnitude x div 2 ^ 52 = 0 then magnitude x mod 2 ^ 52
      else 2 ^ 52 + magnitude x mod 2 ^ 52)"

definition exponent :: "double \<Rightarrow> int" where
  "exponent x = int (max 1 (magnitude x div 2 ^ 52)) - 1075"

definition double_value :: "double \<Rightarrow> real" where
  "double_value x =
     (if sign x then - 1 else 1) * real (significand x) *
     (if 0 \<le> exponent x then 2 ^ nat (exponent x) else 1 / 2 ^ nat (- exponent x))"

definition pack :: "bool \<Rightarrow> nat \<Rightarrow> double" where
  "pack s b = Double (of_nat (if s then 2 ^ 63 + b else b))"

definition quiet_nan :: double where
  "quiet_nan = pack False (infinity_bits + 2 ^ 51)"

fun bit_length :: "nat \<Rightarrow> nat" where
  "bit_length n = (if n = 0 then 0 else Suc (bit_length (n div 2)))"

declare bit_length.simps [simp del]

text \<open>\<open>p / 2 ^ k\<close> rounded to the nearest integer, a tie to the even one.\<close>

definition round_nearest_even :: "nat \<Rightarrow> nat \<Rightarrow> nat" where
  "round_nearest_even p k =
     (let q = p div 2 ^ k; r = p mod 2 ^ k
      in if 2 ^ k < 2 * r \<or> (2 * r = 2 ^ k \<and> odd q) then q + 1 else q)"

text \<open>
  The double nearest to \<open>\<plusminus> p * 2 ^ q\<close>. \<open>e\<close> is the exponent of the result's last
  place: the one that leaves 53 bits of \<open>p\<close>, and not less than the one of the subnormal
  numbers. The significand \<open>m\<close> added to the exponent field carries into it when the
  rounding reaches \<open>2 ^ 53\<close>; what reaches the exponent 2047 is an infinity.
\<close>

definition make_double :: "bool \<Rightarrow> nat \<Rightarrow> int \<Rightarrow> double" where
  "make_double s p q =
     (if p = 0 then pack s 0
      else
        let e = max (q + int (bit_length p) - 53) (- 1074);
            m = (if q \<le> e then round_nearest_even p (nat (e - q)) else p * 2 ^ nat (q - e))
        in pack s (min (nat (e + 1074) * 2 ^ 52 + m) infinity_bits))"

text \<open>The conversion of an \<^verbatim>\<open>int\<close>: exact, every \<^verbatim>\<open>int\<close> has fewer than 53 bits.\<close>

definition double_of_int :: "int \<Rightarrow> double" where
  "double_of_int n = make_double (n < 0) (nat \<bar>n\<bar>) 0"

text \<open>
  The order of the non-NaN doubles is the order of their bits read as sign and
  magnitude, the two zeros being equal. A comparison with a NaN is false.
\<close>

definition sign_magnitude :: "double \<Rightarrow> int" where
  "sign_magnitude x = (if sign x then - int (magnitude x) else int (magnitude x))"

text \<open>
  The operators of \<^verbatim>\<open>double\<close> that the program uses: the literal zero, \<^verbatim>\<open><=\<close> and
  \<^verbatim>\<open><\<close>, and \<^verbatim>\<open>*\<close>. The product of two finite doubles is the exact product rounded. IEEE
  754 leaves the sign and the payload of a NaN that an operation produces to the
  implementation: here it is the quiet NaN with a zero payload.
\<close>

instantiation double :: "{zero, ord, times}"
begin

definition zero_double :: double where
  "zero_double = Double 0"

definition less_eq_double :: "double \<Rightarrow> double \<Rightarrow> bool" where
  "less_eq_double x y = (\<not> is_nan x \<and> \<not> is_nan y \<and> sign_magnitude x \<le> sign_magnitude y)"

definition less_double :: "double \<Rightarrow> double \<Rightarrow> bool" where
  "less_double x y = (\<not> is_nan x \<and> \<not> is_nan y \<and> sign_magnitude x < sign_magnitude y)"

definition times_double :: "double \<Rightarrow> double \<Rightarrow> double" where
  "times_double x y =
     (if is_nan x \<or> is_nan y then quiet_nan
      else if is_infinite x \<or> is_infinite y then
        (if magnitude x = 0 \<or> magnitude y = 0 then quiet_nan
         else pack (sign x \<noteq> sign y) infinity_bits)
      else make_double (sign x \<noteq> sign y) (significand x * significand y)
             (exponent x + exponent y))"

instance ..

end

section \<open>The result wrapper \<^verbatim>\<open>optional_type\<close>\<close>

text \<open>
  The member \<^verbatim>\<open>T value\<close> is written by the first constructor only. The second one leaves
  it default-initialised, which for \<^verbatim>\<open>double\<close> is an indeterminate content: \<open>None\<close>.
\<close>

record 'a optional_type =
  "value" :: "'a option"
  OK :: bool
  BAD :: bool
  msg :: string

definition optional_type_ctor_value :: "'a \<Rightarrow> 'a optional_type" where
  "optional_type_ctor_value t = \<lparr>value = Some t, OK = True, BAD = False, msg = ''''\<rparr>"

definition optional_type_ctor_flag :: "bool \<Rightarrow> string \<Rightarrow> 'a optional_type" where
  "optional_type_ctor_flag ok m = \<lparr>value = None, OK = ok, BAD = (\<not> ok), msg = m\<rparr>"

definition operator_T :: "'a optional_type \<Rightarrow> 'a option" where
  "operator_T r = value r"

section \<open>Standard output and the clock\<close>

text \<open>
  The standard output is the sequence of the insertions made into \<^verbatim>\<open>std::cout\<close>:
  a character string, a value of the wrapped type (\<open>None\<close> when its content is
  indeterminate), the text \<^verbatim>\<open>std::ctime\<close> gives for a \<^verbatim>\<open>time_t\<close>, or \<^verbatim>\<open>std::endl\<close>.
  \<open>clock\<close> is what \<^verbatim>\<open>std::chrono::system_clock::now()\<close> reads, as a \<^verbatim>\<open>time_t\<close>.
\<close>

datatype 'v item = Text string | Value "'v option" | Ctime int | Endl

record 'v stdio =
  clock :: int
  cout :: "'v item list"

section \<open>The decorators\<close>

text \<open>
  A callable takes its argument pack and the state of the process, and gives an outcome
  and the state it leaves. A decorator maps a callable to a callable.

  \<^verbatim>\<open>exception_fail_safe\<close>: the \<^verbatim>\<open>try\<close> block calls \<open>func\<close> and wraps what it returns;
  the three \<^verbatim>\<open>catch\<close> clauses are tried in the order of the source.
\<close>

definition exception_fail_safe ::
  "('p \<Rightarrow> 's \<Rightarrow> 'a outcome \<times> 's) \<Rightarrow> 'p \<Rightarrow> 's \<Rightarrow> 'a optional_type outcome \<times> 's" where
  "exception_fail_safe func = (\<lambda>args s.
     case func args s of
       (Returns v, s') \<Rightarrow> (Returns (optional_type_ctor_value v), s')
     | (Throws (Exception c m), s') \<Rightarrow>
         (if c = Ios_base_failure then (Returns (optional_type_ctor_flag False m), s')
          else (Returns (optional_type_ctor_flag False m), s'))
     | (Throws Non_exception, s') \<Rightarrow>
         (Returns (optional_type_ctor_flag False ''Exception caught: default exception''), s')
     | (Undefined, s') \<Rightarrow> (Undefined, s'))"

text \<open>
  \<^verbatim>\<open>output\<close>: calls \<open>func\<close>, prints the message of a \<open>BAD\<close> result and the value of
  any other, and returns the result. It has no \<^verbatim>\<open>try\<close> block: a thrown object passes
  through it, and nothing is printed.
\<close>

definition "output" ::
  "('p \<Rightarrow> ('v, 'z) stdio_scheme \<Rightarrow> 'v optional_type outcome \<times> ('v, 'z) stdio_scheme) \<Rightarrow>
   'p \<Rightarrow> ('v, 'z) stdio_scheme \<Rightarrow> 'v optional_type outcome \<times> ('v, 'z) stdio_scheme" where
  "output func = (\<lambda>args s.
     case func args s of
       (Returns opt, s') \<Rightarrow>
         (Returns opt,
          s'\<lparr>cout := cout s' @
            (if BAD opt then [Text ''There was an error: '', Text (msg opt), Endl]
             else [Text ''Bag cost $'', Value (value opt), Endl])\<rparr>)
     | (Throws e, s') \<Rightarrow> (Throws e, s')
     | (Undefined, s') \<Rightarrow> (Undefined, s'))"

text \<open>
  \<^verbatim>\<open>log_time\<close>: reads the clock, calls \<open>func\<close>, prints the time read before the call,
  and returns what \<open>func\<close> returned.
\<close>

definition log_time ::
  "('p \<Rightarrow> ('v, 'z) stdio_scheme \<Rightarrow> 'r outcome \<times> ('v, 'z) stdio_scheme) \<Rightarrow>
   'p \<Rightarrow> ('v, 'z) stdio_scheme \<Rightarrow> 'r outcome \<times> ('v, 'z) stdio_scheme" where
  "log_time func = (\<lambda>args s.
     let time = clock s in
     case func args s of
       (Returns opt, s') \<Rightarrow>
         (Returns opt, s'\<lparr>cout := cout s' @ [Text ''> Logged at '', Ctime time, Endl]\<rparr>)
     | (Throws e, s') \<Rightarrow> (Throws e, s')
     | (Undefined, s') \<Rightarrow> (Undefined, s'))"

section \<open>The visitor \<^verbatim>\<open>classmethod\<close>\<close>

text \<open>
  A member function takes the address of its object first. \<^verbatim>\<open>classmethod\<close> turns it
  into a callable whose pack starts with the object: \<^verbatim>\<open>(a.*func)(args...)\<close>.
\<close>

definition classmethod ::
  "(addr \<Rightarrow> 'p \<Rightarrow> 's \<Rightarrow> 'r outcome \<times> 's) \<Rightarrow> addr \<times> 'p \<Rightarrow> 's \<Rightarrow> 'r outcome \<times> 's" where
  "classmethod func = (\<lambda>(a, args). func a args)"

section \<open>The member functor \<^verbatim>\<open>class_memberfunc\<close>\<close>

text \<open>
  \<open>self\<close> is the pointer to the owner; \<open>f\<close> is the \<^verbatim>\<open>std::function\<close>, \<open>None\<close> when
  it is empty. Calling an empty \<^verbatim>\<open>std::function\<close> throws \<^verbatim>\<open>std::bad_function_call\<close>;
  the text of its \<^verbatim>\<open>what()\<close> is the library's (here the one of libstdc++).
\<close>

record ('p, 'r, 's) class_memberfunc =
  self :: addr
  f :: "(addr \<times> 'p \<Rightarrow> 's \<Rightarrow> 'r outcome \<times> 's) option"

definition class_memberfunc_ctor :: "addr \<Rightarrow> ('p, 'r, 's) class_memberfunc" where
  "class_memberfunc_ctor this = \<lparr>self = this, f = None\<rparr>"

definition class_memberfunc_copy_ctor ::
  "('p, 'r, 's) class_memberfunc \<Rightarrow> ('p, 'r, 's) class_memberfunc" where
  "class_memberfunc_copy_ctor rhs = \<lparr>self = self rhs, f = f rhs\<rparr>"

definition class_memberfunc_assign ::
  "('p, 'r, 's) class_memberfunc \<Rightarrow> (addr \<times> 'p \<Rightarrow> 's \<Rightarrow> 'r outcome \<times> 's) \<Rightarrow>
   ('p, 'r, 's) class_memberfunc" where
  "class_memberfunc_assign m rhs = m\<lparr>f := Some rhs\<rparr>"

definition bad_function_call_what :: string where
  "bad_function_call_what = ''bad_function_call''"

definition class_memberfunc_call ::
  "('p, 'r, 's) class_memberfunc \<Rightarrow> 'p \<Rightarrow> 's \<Rightarrow> 'r outcome \<times> 's" where
  "class_memberfunc_call m args s =
     (case f m of
        None \<Rightarrow> (Throws (Exception Bad_function_call bad_function_call_what), s)
      | Some g \<Rightarrow> g (self m, args) s)"

section \<open>The example class \<^verbatim>\<open>apples\<close>\<close>

text \<open>
  The state of the process, for this class: the standard output and the clock, and the
  member \<^verbatim>\<open>cost_per_apple\<close> of every live \<^verbatim>\<open>apples\<close> object, by the object's address.
  The other member, the functor \<^verbatim>\<open>calculate_cost\<close>, is the record \<open>apples\<close>.
\<close>

record apples_store = "double stdio" +
  cost_per_apple :: "addr \<rightharpoonup> double"

definition calculate_cost_impl ::
  "addr \<Rightarrow> 32 word \<times> double \<Rightarrow> apples_store \<Rightarrow> double outcome \<times> apples_store" where
  "calculate_cost_impl this = (\<lambda>(count, weight) s.
     if sint count \<le> 0 then
       (Throws (Exception Runtime_error ''must have 1 or more apples''), s)
     else if weight \<le> 0 then
       (Throws (Exception Runtime_error ''apples must weigh more than 0 ounces''), s)
     else
       (case cost_per_apple s this of
          None \<Rightarrow> (Undefined, s)
        | Some c \<Rightarrow> (Returns (double_of_int (sint count) * weight * c), s)))"

record apples =
  calculate_cost :: "(32 word \<times> double, double optional_type, apples_store) class_memberfunc"

text \<open>
  The constructor, for an object at the address \<open>this\<close>: the member initialisers (the
  functor is initialised from a temporary built for \<open>this\<close>, the cost from the argument),
  then the body, which assigns the decorated member function to the functor.
\<close>

definition apples_ctor :: "addr \<Rightarrow> double \<Rightarrow> apples_store \<Rightarrow> apples \<times> apples_store" where
  "apples_ctor this c s =
     (\<lparr>calculate_cost =
         class_memberfunc_assign
           (class_memberfunc_copy_ctor (class_memberfunc_ctor this))
           (log_time (output (exception_fail_safe (classmethod calculate_cost_impl))))\<rparr>,
      s\<lparr>cost_per_apple := (cost_per_apple s)(this \<mapsto> c)\<rparr>)"

section \<open>Evaluating doubles\<close>

text \<open>
  The equations that compute \<open>bit_length\<close> on a numeral, and the definitions that
  compute a comparison or a product of given doubles.
\<close>

lemma bit_length_eval:
  "bit_length 0 = 0"
  "bit_length (Suc 0) = 1"
  "bit_length 1 = 1"
  "bit_length (numeral k) = bit_length (numeral k div 2) + 1"
  by (subst bit_length.simps, simp)+

lemmas double_eval =
  sign_def magnitude_def infinity_bits_def is_nan_def is_infinite_def significand_def
  exponent_def pack_def quiet_nan_def round_nearest_even_def make_double_def
  double_of_int_def sign_magnitude_def zero_double_def less_eq_double_def less_double_def
  times_double_def bit_length_eval Let_def

text \<open>A double greater than zero is not a NaN, and fails the test \<^verbatim>\<open>weight <= 0\<close>.\<close>

lemma double_pos_not_le_zero: "(0 :: double) < w \<Longrightarrow> \<not> w \<le> 0"
  by (simp add: less_double_def less_eq_double_def)

text \<open>
  The doubles of the examples below, by their bits: 3.34 is \<open>0x400AB851EB851EB8\<close>, 1.09 is
  \<open>0x3FF170A3D70A3D71\<close>, 0.1 is \<open>0x3FB999999999999A\<close>, 1.0 is \<open>0x3FF0000000000000\<close>, - 1.0
  is \<open>0xBFF0000000000000\<close>, the greatest finite double is \<open>0x7FEFFFFFFFFFFFFF\<close> and
  \<open>+ infinity\<close> is \<open>0x7FF0000000000000\<close>. The product \<open>5 * 3.34 * 1.09\<close> of \<^verbatim>\<open>main\<close>, rounded
  after each multiplication, is \<open>0x403233F7CED91687\<close>, which prints as 18.203; \<open>3 * 0.1\<close>
  is \<open>0x3FD3333333333334\<close>, the double above 0.3.
\<close>

lemma double_examples:
  "double_of_int 5 = Double 0x4014000000000000"
  "double_of_int 3 = Double 0x4008000000000000"
  "double_of_int 2 = Double 0x4000000000000000"
  "double_of_int 0 = Double 0"
  "double_of_int (- 3) = Double 0xC008000000000000"
  "double_of_int 2147483647 = Double 0x41DFFFFFFFC00000"
  "double_of_int (- 2147483648) = Double 0xC1E0000000000000"
  "Double 0xC008000000000000 * Double 0x3FB999999999999A = Double 0xBFD3333333333334"
  "Double 0x4014000000000000 * Double 0x400AB851EB851EB8 = Double 0x4030B33333333333"
  "Double 0x4030B33333333333 * Double 0x3FF170A3D70A3D71 = Double 0x403233F7CED91687"
  "Double 0x4008000000000000 * Double 0x3FB999999999999A = Double 0x3FD3333333333334"
  "Double 0x3FD3333333333334 * Double 0x3FF0000000000000 = Double 0x3FD3333333333334"
  "Double 0x4000000000000000 * Double 0x7FEFFFFFFFFFFFFF = Double 0x7FF0000000000000"
  "Double 0x7FF0000000000000 * Double 0x3FF0000000000000 = Double 0x7FF0000000000000"
  "Double 0x7FF0000000000000 * 0 = quiet_nan"
  "Double 1 * Double 0x3FE0000000000000 = Double 0"
  "Double 1 * Double 0x3FF8000000000000 = Double 2"
  by (simp_all add: double_eval)

lemma double_value_examples:
  "double_value (Double 0x3FB999999999999A) = 3602879701896397 / 36028797018963968"
  "double_value (Double 0x3FD3333333333334) = 1351079888211149 / 4503599627370496"
  "double_value (Double 0x403233F7CED91687) = 5123689001064071 / 281474976710656"
  by (simp_all add: double_value_def double_eval)

lemma double_comparisons:
  "(0 :: double) \<le> 0"
  "(0 :: double) < Double 0x400AB851EB851EB8"
  "\<not> Double 0x400AB851EB851EB8 \<le> 0"
  "(0 :: double) < Double 0x3FB999999999999A"
  "(0 :: double) < Double 0x7FEFFFFFFFFFFFFF"
  "Double 0xBFF0000000000000 \<le> 0"
  "\<not> quiet_nan \<le> 0"
  "\<not> 0 < quiet_nan"
  by (simp_all add: double_eval)

section \<open>Properties of the result wrapper and of the decorators\<close>

text \<open>What \<open>exception_fail_safe\<close> makes of each way the wrapped callable can end.\<close>

lemma exception_fail_safe_Returns:
  "func args s = (Returns v, s') \<Longrightarrow>
   exception_fail_safe func args s = (Returns (optional_type_ctor_value v), s')"
  by (simp add: exception_fail_safe_def)

lemma exception_fail_safe_Exception:
  "func args s = (Throws (Exception c m), s') \<Longrightarrow>
   exception_fail_safe func args s = (Returns (optional_type_ctor_flag False m), s')"
  by (simp add: exception_fail_safe_def)

lemma exception_fail_safe_Non_exception:
  "func args s = (Throws Non_exception, s') \<Longrightarrow>
   exception_fail_safe func args s =
     (Returns (optional_type_ctor_flag False ''Exception caught: default exception''), s')"
  by (simp add: exception_fail_safe_def)

lemma exception_fail_safe_Undefined:
  "func args s = (Undefined, s') \<Longrightarrow> exception_fail_safe func args s = (Undefined, s')"
  by (simp add: exception_fail_safe_def)

text \<open>A wrapper, or an undefined run, passes through \<open>output\<close> and \<open>log_time\<close> as it is.\<close>

lemma log_time_output_Returns:
  "g args s = (Returns r, s') \<Longrightarrow> fst (log_time (output g) args s) = Returns r"
  by (simp add: log_time_def output_def)

lemma log_time_output_Undefined:
  "g args s = (Undefined, s') \<Longrightarrow> fst (log_time (output g) args s) = Undefined"
  by (simp add: log_time_def output_def)

text \<open>
  Claim C8. Each constructor sets exactly one of \<open>OK\<close> and \<open>BAD\<close>: the constructor from
  a value gives a success result holding that value; the constructor from \<open>(false, m)\<close>
  gives a failure result with the message \<open>m\<close>; the one from \<open>(true, m)\<close> gives a
  success result. The two constructors are the only places of the program that write a
  flag: \<^verbatim>\<open>operator T\<close>, \<^verbatim>\<open>output\<close> and \<^verbatim>\<open>log_time\<close> read a wrapper and hand it on. So
  a wrapper that the decorated chain builds for any callable still has exactly one flag
  set when the chain hands it to its caller.
\<close>

theorem optional_type_exactly_one_flag:
  "optional_type_ctor_value t = \<lparr>value = Some t, OK = True, BAD = False, msg = ''''\<rparr>
   \<and> optional_type_ctor_flag False m = \<lparr>value = None, OK = False, BAD = True, msg = m\<rparr>
   \<and> optional_type_ctor_flag True m = \<lparr>value = None, OK = True, BAD = False, msg = m\<rparr>
   \<and> OK (optional_type_ctor_value t) \<noteq> BAD (optional_type_ctor_value t)
   \<and> OK (optional_type_ctor_flag ok m) \<noteq> BAD (optional_type_ctor_flag ok m)
   \<and> (fst (log_time (output (exception_fail_safe func)) args s) = Undefined
      \<or> (\<exists>r. fst (log_time (output (exception_fail_safe func)) args s) = Returns r
            \<and> OK r \<noteq> BAD r))"
proof -
  have ctors:
    "optional_type_ctor_value t = \<lparr>value = Some t, OK = True, BAD = False, msg = ''''\<rparr>"
    "optional_type_ctor_flag False m = \<lparr>value = None, OK = False, BAD = True, msg = m\<rparr>"
    "optional_type_ctor_flag True m = \<lparr>value = None, OK = True, BAD = False, msg = m\<rparr>"
    "OK (optional_type_ctor_value t) \<noteq> BAD (optional_type_ctor_value t)"
    "OK (optional_type_ctor_flag ok m) \<noteq> BAD (optional_type_ctor_flag ok m)"
    by (simp_all add: optional_type_ctor_value_def optional_type_ctor_flag_def)
  obtain q s' where run: "func args s = (q, s')"
    by (cases "func args s")
  have chain: "fst (log_time (output (exception_fail_safe func)) args s) = Undefined
      \<or> (\<exists>r. fst (log_time (output (exception_fail_safe func)) args s) = Returns r
            \<and> OK r \<noteq> BAD r)"
  proof (cases q)
    case (Returns x)
    with run have "fst (log_time (output (exception_fail_safe func)) args s) =
        Returns (optional_type_ctor_value x)"
      by (simp add: exception_fail_safe_Returns log_time_output_Returns)
    then show ?thesis
      by (simp add: optional_type_ctor_value_def)
  next
    case (Throws e)
    show ?thesis
    proof (cases e)
      case (Exception c' m')
      with Throws run have "fst (log_time (output (exception_fail_safe func)) args s) =
          Returns (optional_type_ctor_flag False m')"
        by (simp add: exception_fail_safe_Exception log_time_output_Returns)
      then show ?thesis
        by (simp add: optional_type_ctor_flag_def)
    next
      case Non_exception
      with Throws run have "fst (log_time (output (exception_fail_safe func)) args s) =
          Returns (optional_type_ctor_flag False ''Exception caught: default exception'')"
        by (simp add: exception_fail_safe_Non_exception log_time_output_Returns)
      then show ?thesis
        by (simp add: optional_type_ctor_flag_def)
    qed
  next
    case Undefined
    with run show ?thesis
      by (simp add: exception_fail_safe_Undefined log_time_output_Undefined)
  qed
  from ctors chain show ?thesis
    by blast
qed

text \<open>
  Claim C2. For every callable \<open>func\<close>, every argument pack and every state, the call
  of \<open>exception_fail_safe func\<close> never ends by a thrown object. Where \<open>func\<close> returns
  \<open>v\<close>, the result is the success wrapper of \<open>v\<close>; where it throws an object derived
  from \<^verbatim>\<open>std::exception\<close>, the result is the failure wrapper whose message is the
  object's \<^verbatim>\<open>what()\<close>; where it throws anything else, the result is the failure wrapper
  with the message \<^verbatim>\<open>Exception caught: default exception\<close>. The state the call leaves is
  the state one run of \<open>func\<close> leaves: \<open>func\<close> runs exactly once.
\<close>

theorem exception_fail_safe_translates:
  "(\<forall>e. fst (exception_fail_safe func args s) \<noteq> Throws e)
   \<and> (fst (func args s) = Returns v \<longrightarrow>
        fst (exception_fail_safe func args s) =
          Returns \<lparr>value = Some v, OK = True, BAD = False, msg = ''''\<rparr>)
   \<and> (fst (func args s) = Throws (Exception c m) \<longrightarrow>
        fst (exception_fail_safe func args s) =
          Returns \<lparr>value = None, OK = False, BAD = True, msg = m\<rparr>)
   \<and> (fst (func args s) = Throws Non_exception \<longrightarrow>
        fst (exception_fail_safe func args s) =
          Returns \<lparr>value = None, OK = False, BAD = True,
                   msg = ''Exception caught: default exception''\<rparr>
        \<and> sublist ''default exception'' ''Exception caught: default exception'')
   \<and> snd (exception_fail_safe func args s) = snd (func args s)"
proof -
  obtain r s' where run: "func args s = (r, s')"
    by (cases "func args s")
  have sub: "sublist ''default exception'' ''Exception caught: default exception''"
    by (simp add: sublist_code)
  show ?thesis
  proof (cases r)
    case (Returns x)
    with run show ?thesis
      by (simp add: exception_fail_safe_Returns optional_type_ctor_value_def)
  next
    case (Throws e)
    show ?thesis
    proof (cases e)
      case (Exception c' m')
      with Throws run show ?thesis
        by (simp add: exception_fail_safe_Exception optional_type_ctor_flag_def)
    next
      case Non_exception
      with Throws run sub show ?thesis
        by (simp add: exception_fail_safe_Non_exception optional_type_ctor_flag_def)
    qed
  next
    case Undefined
    with run show ?thesis
      by (simp add: exception_fail_safe_Undefined)
  qed
qed

text \<open>
  Claim C2, at concrete inputs: the member function of \<open>apples\<close> returning a cost and
  throwing a \<^verbatim>\<open>std::runtime_error\<close>, a callable that throws an object of another type,
  and a callable that prints once each time it runs.
\<close>

theorem exception_fail_safe_translates_witness:
  "fst (classmethod calculate_cost_impl (100, (5, Double 0x400AB851EB851EB8))
          \<lparr>clock = 0, cout = [], cost_per_apple = [100 \<mapsto> Double 0x3FF170A3D70A3D71]\<rparr>) = Returns (Double 0x403233F7CED91687)
   \<and> fst (exception_fail_safe (classmethod calculate_cost_impl) (100, (5, Double 0x400AB851EB851EB8))
          \<lparr>clock = 0, cout = [], cost_per_apple = [100 \<mapsto> Double 0x3FF170A3D70A3D71]\<rparr>) =
       Returns \<lparr>value = Some (Double 0x403233F7CED91687), OK = True, BAD = False, msg = ''''\<rparr>
   \<and> fst (classmethod calculate_cost_impl (100, (0, Double 0x400AB851EB851EB8))
          \<lparr>clock = 0, cout = [], cost_per_apple = [100 \<mapsto> Double 0x3FF170A3D70A3D71]\<rparr>) =
       Throws (Exception Runtime_error ''must have 1 or more apples'')
   \<and> fst (exception_fail_safe (classmethod calculate_cost_impl) (100, (0, Double 0x400AB851EB851EB8))
          \<lparr>clock = 0, cout = [], cost_per_apple = [100 \<mapsto> Double 0x3FF170A3D70A3D71]\<rparr>) =
       Returns \<lparr>value = None, OK = False, BAD = True, msg = ''must have 1 or more apples''\<rparr>
   \<and> fst (exception_fail_safe (\<lambda>a t. (Throws Non_exception :: nat outcome, t)) (7 :: nat)
          \<lparr>clock = 0, cout = [] :: nat item list\<rparr>) =
       Returns \<lparr>value = None, OK = False, BAD = True,
                msg = ''Exception caught: default exception''\<rparr>
   \<and> cout (snd (exception_fail_safe (\<lambda>a t. (Returns a, t\<lparr>cout := cout t @ [Text ''called'']\<rparr>))
          (7 :: nat) \<lparr>clock = 0, cout = [] :: nat item list\<rparr>)) = [Text ''called'']"
  using
    exception_fail_safe_translates [where func = "classmethod calculate_cost_impl"
      and args = "(100, (5, Double 0x400AB851EB851EB8))"
      and s = "\<lparr>clock = 0, cout = [], cost_per_apple = [100 \<mapsto> Double 0x3FF170A3D70A3D71]\<rparr>"
      and v = "Double 0x403233F7CED91687"]
    exception_fail_safe_translates [where func = "classmethod calculate_cost_impl"
      and args = "(100, (0, Double 0x400AB851EB851EB8))"
      and s = "\<lparr>clock = 0, cout = [], cost_per_apple = [100 \<mapsto> Double 0x3FF170A3D70A3D71]\<rparr>"
      and c = Runtime_error and m = "''must have 1 or more apples''"]
    exception_fail_safe_translates [where func = "\<lambda>a t. (Throws Non_exception :: nat outcome, t)"
      and args = "7 :: nat" and s = "\<lparr>clock = 0, cout = [] :: nat item list\<rparr>"]
    exception_fail_safe_translates
      [where func = "\<lambda>a t. (Returns a, t\<lparr>cout := cout t @ [Text ''called'']\<rparr>)"
      and args = "7 :: nat" and s = "\<lparr>clock = 0, cout = [] :: nat item list\<rparr>"]
  by (simp add: classmethod_def calculate_cost_impl_def double_examples double_comparisons)

text \<open>
  Claim C5. For every inner callable that returns a wrapper \<open>r\<close>, success or failure,
  \<open>log_time\<close> returns \<open>r\<close> itself (value, flags and message as they were), and what it
  adds to the standard output is one line: \<^verbatim>\<open>> Logged at\<close>, the text of the time read
  before the inner call, and the end of the line.
\<close>

theorem log_time_passthrough:
  assumes "func args s = (Returns r, s')"
  shows "log_time func args s =
    (Returns r, s'\<lparr>cout := cout s' @ [Text ''> Logged at '', Ctime (clock s), Endl]\<rparr>)"
  using assms by (simp add: log_time_def)

text \<open>Claim C5, at an inner callable that returns a success and one that returns a failure.\<close>

theorem log_time_passthrough_witness:
  "log_time (exception_fail_safe (classmethod calculate_cost_impl)) (100, (5, Double 0x400AB851EB851EB8))
      \<lparr>clock = 42, cout = [Text ''before''], cost_per_apple = [100 \<mapsto> Double 0x3FF170A3D70A3D71]\<rparr> =
     (Returns \<lparr>value = Some (Double 0x403233F7CED91687), OK = True, BAD = False, msg = ''''\<rparr>,
      \<lparr>clock = 42, cout = [Text ''before'', Text ''> Logged at '', Ctime 42, Endl],
       cost_per_apple = [100 \<mapsto> Double 0x3FF170A3D70A3D71]\<rparr>)
   \<and> log_time (exception_fail_safe (classmethod calculate_cost_impl)) (100, (5, 0))
      \<lparr>clock = 42, cout = [Text ''before''], cost_per_apple = [100 \<mapsto> Double 0x3FF170A3D70A3D71]\<rparr> =
     (Returns \<lparr>value = None, OK = False, BAD = True,
               msg = ''apples must weigh more than 0 ounces''\<rparr>,
      \<lparr>clock = 42, cout = [Text ''before'', Text ''> Logged at '', Ctime 42, Endl],
       cost_per_apple = [100 \<mapsto> Double 0x3FF170A3D70A3D71]\<rparr>)"
  using
    log_time_passthrough [where func = "exception_fail_safe (classmethod calculate_cost_impl)"
      and args = "(100, (5, Double 0x400AB851EB851EB8))"
      and s = "\<lparr>clock = 42, cout = [Text ''before''], cost_per_apple = [100 \<mapsto> Double 0x3FF170A3D70A3D71]\<rparr>"
      and r = "\<lparr>value = Some (Double 0x403233F7CED91687), OK = True, BAD = False, msg = ''''\<rparr>"
      and s' = "\<lparr>clock = 42, cout = [Text ''before''], cost_per_apple = [100 \<mapsto> Double 0x3FF170A3D70A3D71]\<rparr>"]
    log_time_passthrough [where func = "exception_fail_safe (classmethod calculate_cost_impl)"
      and args = "(100, (5, 0))"
      and s = "\<lparr>clock = 42, cout = [Text ''before''], cost_per_apple = [100 \<mapsto> Double 0x3FF170A3D70A3D71]\<rparr>"
      and r = "\<lparr>value = None, OK = False, BAD = True,
                 msg = ''apples must weigh more than 0 ounces''\<rparr>"
      and s' = "\<lparr>clock = 42, cout = [Text ''before''], cost_per_apple = [100 \<mapsto> Double 0x3FF170A3D70A3D71]\<rparr>"]
  by (simp add: exception_fail_safe_def classmethod_def calculate_cost_impl_def
      optional_type_ctor_value_def optional_type_ctor_flag_def double_examples
      double_comparisons)

text \<open>
  Claim C6. For every inner callable that returns a wrapper \<open>r\<close>, \<open>output\<close> returns
  \<open>r\<close> itself. On a failure (\<open>BAD\<close>) it prints the line \<^verbatim>\<open>There was an error: \<close> and
  the message, and the member \<open>value\<close> plays no part: with any other content \<open>x\<close> in
  that member the standard output is the same. On a success it prints the line
  \<^verbatim>\<open>Bag cost $\<close> and the value.
\<close>

theorem output_reports:
  assumes "func args s = (Returns r, s')"
  shows "fst (output func args s) = Returns r
    \<and> (BAD r \<longrightarrow>
         snd (output func args s) =
           s'\<lparr>cout := cout s' @ [Text ''There was an error: '', Text (msg r), Endl]\<rparr>
         \<and> output (\<lambda>a t. (Returns (r\<lparr>value := x\<rparr>), s')) args s =
           (Returns (r\<lparr>value := x\<rparr>), snd (output func args s)))
    \<and> (\<not> BAD r \<longrightarrow>
         snd (output func args s) =
           s'\<lparr>cout := cout s' @ [Text ''Bag cost $'', Value (value r), Endl]\<rparr>)"
  using assms by (simp add: output_def)

text \<open>Claim C6, at a success and at a failure of the decorated member function.\<close>

theorem output_reports_witness:
  "output (exception_fail_safe (classmethod calculate_cost_impl)) (100, (5, Double 0x400AB851EB851EB8))
      \<lparr>clock = 42, cout = [], cost_per_apple = [100 \<mapsto> Double 0x3FF170A3D70A3D71]\<rparr> =
     (Returns \<lparr>value = Some (Double 0x403233F7CED91687), OK = True, BAD = False, msg = ''''\<rparr>,
      \<lparr>clock = 42, cout = [Text ''Bag cost $'', Value (Some (Double 0x403233F7CED91687)), Endl],
       cost_per_apple = [100 \<mapsto> Double 0x3FF170A3D70A3D71]\<rparr>)
   \<and> output (exception_fail_safe (classmethod calculate_cost_impl)) (100, (0, Double 0x400AB851EB851EB8))
      \<lparr>clock = 42, cout = [], cost_per_apple = [100 \<mapsto> Double 0x3FF170A3D70A3D71]\<rparr> =
     (Returns \<lparr>value = None, OK = False, BAD = True, msg = ''must have 1 or more apples''\<rparr>,
      \<lparr>clock = 42,
       cout = [Text ''There was an error: '', Text ''must have 1 or more apples'', Endl],
       cost_per_apple = [100 \<mapsto> Double 0x3FF170A3D70A3D71]\<rparr>)"
  using
    output_reports [where func = "exception_fail_safe (classmethod calculate_cost_impl)"
      and args = "(100, (5, Double 0x400AB851EB851EB8))"
      and s = "\<lparr>clock = 42, cout = [], cost_per_apple = [100 \<mapsto> Double 0x3FF170A3D70A3D71]\<rparr>"
      and r = "\<lparr>value = Some (Double 0x403233F7CED91687), OK = True, BAD = False, msg = ''''\<rparr>"
      and s' = "\<lparr>clock = 42, cout = [], cost_per_apple = [100 \<mapsto> Double 0x3FF170A3D70A3D71]\<rparr>"]
    output_reports [where func = "exception_fail_safe (classmethod calculate_cost_impl)"
      and args = "(100, (0, Double 0x400AB851EB851EB8))"
      and s = "\<lparr>clock = 42, cout = [], cost_per_apple = [100 \<mapsto> Double 0x3FF170A3D70A3D71]\<rparr>"
      and r = "\<lparr>value = None, OK = False, BAD = True, msg = ''must have 1 or more apples''\<rparr>"
      and s' = "\<lparr>clock = 42, cout = [], cost_per_apple = [100 \<mapsto> Double 0x3FF170A3D70A3D71]\<rparr>"]
  by (simp add: exception_fail_safe_def classmethod_def calculate_cost_impl_def
      optional_type_ctor_value_def optional_type_ctor_flag_def prod_eq_iff double_examples
      double_comparisons)

section \<open>Properties of the member functor\<close>

lemmas class_memberfunc_defs =
  class_memberfunc_call_def class_memberfunc_assign_def
  class_memberfunc_copy_ctor_def class_memberfunc_ctor_def

text \<open>
  Claim C7. Calling a functor that holds a callable \<open>g\<close> calls \<open>g\<close> on the owner
  \<open>self\<close>, followed by the arguments of the call, and returns what \<open>g\<close> returns, in the
  state \<open>g\<close> leaves. Where the callable assigned is \<open>classmethod func\<close>, the call is the
  call of the member function \<open>func\<close> on the owner with those arguments.
\<close>

theorem class_memberfunc_call_forwards:
  assumes "f m = Some g"
  shows "class_memberfunc_call m args s = g (self m, args) s
    \<and> class_memberfunc_call (class_memberfunc_assign m (classmethod func)) args s =
        func (self m) args s"
  using assms by (simp add: class_memberfunc_call_def class_memberfunc_assign_def classmethod_def)

text \<open>
  Claim C7, at a functor owned by the address 100 that holds a callable printing the
  owner and the argument it receives.
\<close>

theorem class_memberfunc_call_forwards_witness:
  "class_memberfunc_call
     (class_memberfunc_assign (class_memberfunc_ctor 100)
        (\<lambda>(a, n) t. (Returns (a + n), t\<lparr>cout := cout t @ [Value (Some a), Value (Some n)]\<rparr>)))
     (5 :: nat) \<lparr>clock = 0, cout = []\<rparr> =
     (Returns 105, \<lparr>clock = 0, cout = [Value (Some 100), Value (Some 5)]\<rparr>)"
  using class_memberfunc_call_forwards
    [where m = "class_memberfunc_assign (class_memberfunc_ctor 100)
        (\<lambda>(a, n) t. (Returns (a + n), t\<lparr>cout := cout t @ [Value (Some a), Value (Some n)]\<rparr>))"
      and g = "\<lambda>(a, n) t. (Returns (a + n), t\<lparr>cout := cout t @ [Value (Some a), Value (Some n)]\<rparr>)"
      and args = "5 :: nat" and s = "\<lparr>clock = 0, cout = [] :: nat item list\<rparr>"]
  by (simp add: class_memberfunc_assign_def class_memberfunc_ctor_def)

text \<open>
  Claim C9. The copy constructor copies the owner pointer and the stored callable as
  they are: the copy has the owner and the callable of its source, a call of the copy
  is the call of the source, and a copy of a functor built for the owner \<open>this\<close> hands
  \<open>this\<close> to the callable, wherever the copy itself lives.
\<close>

theorem class_memberfunc_copy_keeps_owner:
  "self (class_memberfunc_copy_ctor rhs) = self rhs
   \<and> f (class_memberfunc_copy_ctor rhs) = f rhs
   \<and> class_memberfunc_call (class_memberfunc_copy_ctor rhs) args s =
       class_memberfunc_call rhs args s
   \<and> class_memberfunc_call
         (class_memberfunc_copy_ctor (class_memberfunc_assign (class_memberfunc_ctor this) g))
         args s = g (this, args) s"
  by (simp add: class_memberfunc_defs split: option.split)

text \<open>
  Claim C10. A functor built for an owner and never assigned a callable holds an empty
  \<^verbatim>\<open>std::function\<close>: calling it ends by the thrown \<^verbatim>\<open>std::bad_function_call\<close>, in the
  state of the call. The functor neither tests for emptiness nor catches the object,
  so the outcome is the thrown object itself and no wrapper; a copy behaves the same.
\<close>

theorem class_memberfunc_call_empty:
  "class_memberfunc_call (class_memberfunc_ctor this) args s =
     (Throws (Exception Bad_function_call bad_function_call_what), s)
   \<and> class_memberfunc_call (class_memberfunc_copy_ctor (class_memberfunc_ctor this)) args s =
     (Throws (Exception Bad_function_call bad_function_call_what), s)"
  by (simp add: class_memberfunc_defs)

section \<open>Properties of \<^verbatim>\<open>apples::calculate_cost\<close>\<close>

text \<open>
  The constructor leaves the object live at \<open>this\<close> with the unit cost it was given,
  and the functor of the object runs the decorated member function on \<open>this\<close>.
\<close>

lemma apples_ctor_live:
  "cost_per_apple (snd (apples_ctor this c s0)) this = Some c"
  by (simp add: apples_ctor_def)

lemma calculate_cost_eq:
  "class_memberfunc_call (calculate_cost (fst (apples_ctor this c s0))) args s =
     log_time (output (exception_fail_safe (classmethod calculate_cost_impl))) (this, args) s"
  by (simp add: apples_ctor_def class_memberfunc_defs)

text \<open>The three ways \<^verbatim>\<open>calculate_cost_impl\<close> ends on a live object.\<close>

lemma calculate_cost_impl_count:
  "sint count \<le> 0 \<Longrightarrow>
   classmethod calculate_cost_impl (this, (count, weight)) s =
     (Throws (Exception Runtime_error ''must have 1 or more apples''), s)"
  by (simp add: classmethod_def calculate_cost_impl_def)

lemma calculate_cost_impl_weight:
  "0 < sint count \<Longrightarrow> weight \<le> 0 \<Longrightarrow>
   classmethod calculate_cost_impl (this, (count, weight)) s =
     (Throws (Exception Runtime_error ''apples must weigh more than 0 ounces''), s)"
  by (simp add: classmethod_def calculate_cost_impl_def)

lemma calculate_cost_impl_value:
  "0 < sint count \<Longrightarrow> 0 < weight \<Longrightarrow> cost_per_apple s this = Some c \<Longrightarrow>
   classmethod calculate_cost_impl (this, (count, weight)) s =
     (Returns (double_of_int (sint count) * weight * c), s)"
  by (simp add: classmethod_def calculate_cost_impl_def double_pos_not_le_zero)

text \<open>
  Claim C1. For every \<open>count > 0\<close> and \<open>weight > 0\<close>, the call of \<open>calculate_cost\<close> on
  an \<open>apples\<close> object built with the unit cost \<open>c\<close>, in a state where the object lives
  with that cost, returns a success result (\<open>OK\<close> true, \<open>BAD\<close> false) whose value is
  \<open>count * weight * c\<close>, computed as the program computes it: the count converted to
  \<^verbatim>\<open>double\<close>, multiplied by the weight and then by the unit cost, each product rounded to
  the nearest double. It prints the cost line and the timestamp line.
\<close>

theorem calculate_cost_success:
  assumes "0 < sint count" and "0 < weight" and "cost_per_apple s this = Some c"
  shows "class_memberfunc_call (calculate_cost (fst (apples_ctor this c s0))) (count, weight) s =
    (Returns \<lparr>value = Some (double_of_int (sint count) * weight * c),
              OK = True, BAD = False, msg = ''''\<rparr>,
     s\<lparr>cout := cout s @
       [Text ''Bag cost $'', Value (Some (double_of_int (sint count) * weight * c)), Endl,
        Text ''> Logged at '', Ctime (clock s), Endl]\<rparr>)"
proof -
  have "exception_fail_safe (classmethod calculate_cost_impl) (this, (count, weight)) s =
      (Returns (optional_type_ctor_value (double_of_int (sint count) * weight * c)), s)"
    using assms by (simp add: exception_fail_safe_Returns calculate_cost_impl_value)
  then show ?thesis
    by (simp add: calculate_cost_eq log_time_def output_def optional_type_ctor_value_def)
qed

text \<open>
  Claim C1, at the call of \<^verbatim>\<open>main\<close> (an object built with the unit cost 1.09, called
  with 5 apples of 3.34 ounces in the state its constructor left); at 3 apples of 0.1
  ounces and the unit cost 1.0, where the product is the rounded one, above 0.3; and at
  2 apples of the greatest finite weight, where the product is \<open>+ infinity\<close>.
\<close>

theorem calculate_cost_success_witness:
  "0 < sint (5 :: 32 word) \<and> (0 :: double) < Double 0x400AB851EB851EB8
   \<and> class_memberfunc_call
        (calculate_cost
          (fst (apples_ctor 100 (Double 0x3FF170A3D70A3D71)
                 \<lparr>clock = 7, cout = [], cost_per_apple = Map.empty\<rparr>)))
        (5, Double 0x400AB851EB851EB8)
        (snd (apples_ctor 100 (Double 0x3FF170A3D70A3D71)
               \<lparr>clock = 7, cout = [], cost_per_apple = Map.empty\<rparr>)) =
      (Returns \<lparr>value = Some (Double 0x403233F7CED91687), OK = True, BAD = False, msg = ''''\<rparr>,
       \<lparr>clock = 7,
        cout = [Text ''Bag cost $'', Value (Some (Double 0x403233F7CED91687)), Endl,
                Text ''> Logged at '', Ctime 7, Endl],
        cost_per_apple = [100 \<mapsto> Double 0x3FF170A3D70A3D71]\<rparr>)
   \<and> double_value (Double 0x403233F7CED91687) = 5123689001064071 / 281474976710656
   \<and> 0 < sint (3 :: 32 word) \<and> (0 :: double) < Double 0x3FB999999999999A
   \<and> fst (class_memberfunc_call
        (calculate_cost
          (fst (apples_ctor 100 (Double 0x3FF0000000000000)
                 \<lparr>clock = 7, cout = [], cost_per_apple = Map.empty\<rparr>)))
        (3, Double 0x3FB999999999999A)
        \<lparr>clock = 7, cout = [], cost_per_apple = [100 \<mapsto> Double 0x3FF0000000000000]\<rparr>) =
      Returns \<lparr>value = Some (Double 0x3FD3333333333334), OK = True, BAD = False, msg = ''''\<rparr>
   \<and> double_value (Double 0x3FD3333333333334) = 1351079888211149 / 4503599627370496
   \<and> 0 < sint (2 :: 32 word) \<and> (0 :: double) < Double 0x7FEFFFFFFFFFFFFF
   \<and> fst (class_memberfunc_call
        (calculate_cost
          (fst (apples_ctor 100 (Double 0x3FF0000000000000)
                 \<lparr>clock = 7, cout = [], cost_per_apple = Map.empty\<rparr>)))
        (2, Double 0x7FEFFFFFFFFFFFFF)
        \<lparr>clock = 7, cout = [], cost_per_apple = [100 \<mapsto> Double 0x3FF0000000000000]\<rparr>) =
      Returns \<lparr>value = Some (Double 0x7FF0000000000000), OK = True, BAD = False, msg = ''''\<rparr>"
  using
    calculate_cost_success [where count = 5 and weight = "Double 0x400AB851EB851EB8"
      and c = "Double 0x3FF170A3D70A3D71" and this = 100
      and s = "snd (apples_ctor 100 (Double 0x3FF170A3D70A3D71)
                 \<lparr>clock = 7, cout = [], cost_per_apple = Map.empty\<rparr>)"
      and ?s0.0 = "\<lparr>clock = 7, cout = [], cost_per_apple = Map.empty\<rparr>"]
    calculate_cost_success [where count = 3 and weight = "Double 0x3FB999999999999A"
      and c = "Double 0x3FF0000000000000" and this = 100
      and s = "\<lparr>clock = 7, cout = [], cost_per_apple = [100 \<mapsto> Double 0x3FF0000000000000]\<rparr>"
      and ?s0.0 = "\<lparr>clock = 7, cout = [], cost_per_apple = Map.empty\<rparr>"]
    calculate_cost_success [where count = 2 and weight = "Double 0x7FEFFFFFFFFFFFFF"
      and c = "Double 0x3FF0000000000000" and this = 100
      and s = "\<lparr>clock = 7, cout = [], cost_per_apple = [100 \<mapsto> Double 0x3FF0000000000000]\<rparr>"
      and ?s0.0 = "\<lparr>clock = 7, cout = [], cost_per_apple = Map.empty\<rparr>"]
  by (simp add: apples_ctor_def double_examples double_value_examples double_comparisons)

text \<open>
  Claim C3. For every \<open>count \<le> 0\<close> and every weight, the call of \<open>calculate_cost\<close>
  returns a failure result (\<open>OK\<close> false, \<open>BAD\<close> true, no value) whose message is
  \<^verbatim>\<open>must have 1 or more apples\<close>, which holds the words \<^verbatim>\<open>1 or more apples\<close>. It prints
  the error line and the timestamp line. The check comes before any read of the
  object, so this holds in every state.
\<close>

theorem calculate_cost_count_failure:
  assumes "sint count \<le> 0"
  shows "class_memberfunc_call (calculate_cost (fst (apples_ctor this c s0))) (count, weight) s =
    (Returns \<lparr>value = None, OK = False, BAD = True, msg = ''must have 1 or more apples''\<rparr>,
     s\<lparr>cout := cout s @
       [Text ''There was an error: '', Text ''must have 1 or more apples'', Endl,
        Text ''> Logged at '', Ctime (clock s), Endl]\<rparr>)
    \<and> sublist ''1 or more apples'' ''must have 1 or more apples''"
proof -
  have "exception_fail_safe (classmethod calculate_cost_impl) (this, (count, weight)) s =
      (Returns (optional_type_ctor_flag False ''must have 1 or more apples''), s)"
    using assms by (simp add: exception_fail_safe_Exception calculate_cost_impl_count)
  moreover have "sublist ''1 or more apples'' ''must have 1 or more apples''"
    by (simp add: sublist_code)
  ultimately show ?thesis
    by (simp add: calculate_cost_eq log_time_def output_def optional_type_ctor_flag_def)
qed

text \<open>Claim C3, at the scenario of no apples of 3.34 ounces, and at a negative count.\<close>

theorem calculate_cost_count_failure_witness:
  "sint (0 :: 32 word) \<le> 0
   \<and> class_memberfunc_call
        (calculate_cost
          (fst (apples_ctor 100 (Double 0x3FF170A3D70A3D71) \<lparr>clock = 7, cout = [], cost_per_apple = Map.empty\<rparr>)))
        (0, Double 0x400AB851EB851EB8)
        \<lparr>clock = 7, cout = [], cost_per_apple = [100 \<mapsto> Double 0x3FF170A3D70A3D71]\<rparr> =
      (Returns \<lparr>value = None, OK = False, BAD = True, msg = ''must have 1 or more apples''\<rparr>,
       \<lparr>clock = 7,
        cout = [Text ''There was an error: '', Text ''must have 1 or more apples'', Endl,
                Text ''> Logged at '', Ctime 7, Endl],
        cost_per_apple = [100 \<mapsto> Double 0x3FF170A3D70A3D71]\<rparr>)
   \<and> sint (- 3 :: 32 word) \<le> 0
   \<and> fst (class_memberfunc_call
        (calculate_cost
          (fst (apples_ctor 100 (Double 0x3FF170A3D70A3D71) \<lparr>clock = 7, cout = [], cost_per_apple = Map.empty\<rparr>)))
        (- 3, Double 0xBFF0000000000000)
        \<lparr>clock = 7, cout = [], cost_per_apple = [100 \<mapsto> Double 0x3FF170A3D70A3D71]\<rparr>) =
      Returns \<lparr>value = None, OK = False, BAD = True, msg = ''must have 1 or more apples''\<rparr>"
  using
    calculate_cost_count_failure [where count = 0 and weight = "Double 0x400AB851EB851EB8" and c = "Double 0x3FF170A3D70A3D71"
      and this = 100 and s = "\<lparr>clock = 7, cout = [], cost_per_apple = [100 \<mapsto> Double 0x3FF170A3D70A3D71]\<rparr>"
      and ?s0.0 = "\<lparr>clock = 7, cout = [], cost_per_apple = Map.empty\<rparr>"]
    calculate_cost_count_failure [where count = "- 3" and weight = "Double 0xBFF0000000000000" and c = "Double 0x3FF170A3D70A3D71"
      and this = 100 and s = "\<lparr>clock = 7, cout = [], cost_per_apple = [100 \<mapsto> Double 0x3FF170A3D70A3D71]\<rparr>"
      and ?s0.0 = "\<lparr>clock = 7, cout = [], cost_per_apple = Map.empty\<rparr>"]
  by simp

text \<open>
  Claim C4, as stated, fails where the count is not positive either: the count is
  checked first, so with no apples of weight 0 the message is the one of the count, and
  the words \<^verbatim>\<open>weigh more than 0\<close> are not in it.
\<close>

theorem calculate_cost_weight_counterexample:
  "(0 :: double) \<le> 0
   \<and> fst (class_memberfunc_call
        (calculate_cost
          (fst (apples_ctor 100 (Double 0x3FF170A3D70A3D71) \<lparr>clock = 7, cout = [], cost_per_apple = Map.empty\<rparr>)))
        (0, 0)
        (snd (apples_ctor 100 (Double 0x3FF170A3D70A3D71) \<lparr>clock = 7, cout = [], cost_per_apple = Map.empty\<rparr>))) =
      Returns \<lparr>value = None, OK = False, BAD = True, msg = ''must have 1 or more apples''\<rparr>
   \<and> \<not> sublist ''weigh more than 0'' ''must have 1 or more apples''"
  by (simp add: apples_ctor_def class_memberfunc_defs log_time_def output_def
      exception_fail_safe_def classmethod_def calculate_cost_impl_def
      optional_type_ctor_flag_def sublist_code double_comparisons)

text \<open>
  Claim C4, amended. For every \<open>weight \<le> 0\<close> and every \<open>count > 0\<close>, the call of
  \<open>calculate_cost\<close> returns a failure result whose message is
  \<^verbatim>\<open>apples must weigh more than 0 ounces\<close>, which holds the words \<^verbatim>\<open>weigh more than 0\<close>.
  It prints the error line and the timestamp line.
\<close>

theorem calculate_cost_weight_failure:
  assumes "0 < sint count" and "weight \<le> 0"
  shows "class_memberfunc_call (calculate_cost (fst (apples_ctor this c s0))) (count, weight) s =
    (Returns \<lparr>value = None, OK = False, BAD = True,
              msg = ''apples must weigh more than 0 ounces''\<rparr>,
     s\<lparr>cout := cout s @
       [Text ''There was an error: '', Text ''apples must weigh more than 0 ounces'', Endl,
        Text ''> Logged at '', Ctime (clock s), Endl]\<rparr>)
    \<and> sublist ''weigh more than 0'' ''apples must weigh more than 0 ounces''"
proof -
  have "exception_fail_safe (classmethod calculate_cost_impl) (this, (count, weight)) s =
      (Returns (optional_type_ctor_flag False ''apples must weigh more than 0 ounces''), s)"
    using assms by (simp add: exception_fail_safe_Exception calculate_cost_impl_weight)
  moreover have "sublist ''weigh more than 0'' ''apples must weigh more than 0 ounces''"
    by (simp add: sublist_code)
  ultimately show ?thesis
    by (simp add: calculate_cost_eq log_time_def output_def optional_type_ctor_flag_def)
qed

text \<open>Claim C4, amended, at the scenario of 5 apples of weight 0.\<close>

theorem calculate_cost_weight_failure_witness:
  "0 < sint (5 :: 32 word) \<and> (0 :: double) \<le> 0
   \<and> class_memberfunc_call
        (calculate_cost
          (fst (apples_ctor 100 (Double 0x3FF170A3D70A3D71) \<lparr>clock = 7, cout = [], cost_per_apple = Map.empty\<rparr>)))
        (5, 0)
        \<lparr>clock = 7, cout = [], cost_per_apple = [100 \<mapsto> Double 0x3FF170A3D70A3D71]\<rparr> =
      (Returns \<lparr>value = None, OK = False, BAD = True,
                msg = ''apples must weigh more than 0 ounces''\<rparr>,
       \<lparr>clock = 7,
        cout = [Text ''There was an error: '', Text ''apples must weigh more than 0 ounces'', Endl,
                Text ''> Logged at '', Ctime 7, Endl],
        cost_per_apple = [100 \<mapsto> Double 0x3FF170A3D70A3D71]\<rparr>)"
  using
    calculate_cost_weight_failure [where count = 5 and weight = 0 and c = "Double 0x3FF170A3D70A3D71"
      and this = 100 and s = "\<lparr>clock = 7, cout = [], cost_per_apple = [100 \<mapsto> Double 0x3FF170A3D70A3D71]\<rparr>"
      and ?s0.0 = "\<lparr>clock = 7, cout = [], cost_per_apple = Map.empty\<rparr>"]
  by (simp add: double_comparisons)

end
